theory Spec2Isabelle
  imports Complex_Main "HOL-Library.Word"
begin

section \<open>Values of the JavaScript runtime\<close>

text \<open>
  A \<open>Buffer\<close> is a sequence of bytes. Strings are lists of 8-bit characters. The numbers
  the signer receives as coordinates, sizes and dimensions are finite and are modelled as
  reals (rounding is not modelled); \<open>pageNumber\<close> is the 1-indexed integer the JSDoc
  describes. The result of \<open>parseInt\<close> may be \<open>NaN\<close>, so it has a type of its own.
\<close>

type_synonym bytes = "8 word list"

datatype jsnum = Num real | NaN

text \<open>
  A thrown value. The signer and the runtime throw \<open>Error\<close> and \<open>TypeError\<close> objects,
  which have a \<open>message\<close>; pdf-lib's decoders also throw bare strings, and reading
  \<open>.message\<close> of a string gives \<open>undefined\<close> (\<open>None\<close>).
\<close>

datatype jserror = Error string | TypeError string | ThrownString string

fun message :: "jserror \<Rightarrow> string option" where
  "message (Error m) = Some m"
| "message (TypeError m) = Some m"
| "message (ThrownString t) = None"

text \<open>
  What \<open>console.warn\<close> and \<open>console.error\<close> print, in the order they are called.
  The calls of \<open>console.log\<close> are informational and are left out.
\<close>

datatype event =
    WarnCoordinates real real real real
  | WarnFontNotStandard string
  | ErrorEmbeddingFont string jserror
  | ErrorInSigner string jserror
  | WarnUnknownType string
  | ErrorApplyingSignature nat jserror
  | ErrorNoSignaturesInArray
  | ErrorApplyingSignatures "string option"
  | ErrorStack jserror

fun is_warning :: "event \<Rightarrow> bool" where
  "is_warning (WarnCoordinates x y w h) = True"
| "is_warning (WarnFontNotStandard n) = True"
| "is_warning (WarnUnknownType t) = True"
| "is_warning ev = False"

text \<open>
  An \<open>async\<close> computation of the source: the console events it produced, and either the
  value it returned (\<open>Inr\<close>) or the error it threw (\<open>Inl\<close>).
\<close>

type_synonym 'a io = "event list \<times> (jserror + 'a)"

definition ret :: "'a \<Rightarrow> 'a io" where
  "ret v = ([], Inr v)"

definition throw :: "jserror \<Rightarrow> 'a io" where
  "throw e = ([], Inl e)"

definition console :: "event \<Rightarrow> unit io" where
  "console ev = ([ev], Inr ())"

text \<open>A call into a library, which prints nothing of its own.\<close>

definition lift :: "jserror + 'a \<Rightarrow> 'a io" where
  "lift r = ([], r)"

definition bind :: "'a io \<Rightarrow> ('a \<Rightarrow> 'b io) \<Rightarrow> 'b io" where
  "bind m f =
     (case m of
        (l, Inl e) \<Rightarrow> (l, Inl e)
      | (l, Inr v) \<Rightarrow> (case f v of (l', r) \<Rightarrow> (l @ l', r)))"

text \<open>\<open>try { m } catch (e) { h e }\<close>\<close>

definition try_catch :: "'a io \<Rightarrow> (jserror \<Rightarrow> 'a io) \<Rightarrow> 'a io" where
  "try_catch m h =
     (case m of
        (l, Inl e) \<Rightarrow> (case h e of (l', r) \<Rightarrow> (l @ l', r))
      | (l, Inr v) \<Rightarrow> (l, Inr v))"

subsection \<open>Template literals\<close>

text \<open>The decimal digits \<open>${n}\<close> prints for a non-negative integer, and for an integer.\<close>

fun show_nat :: "nat \<Rightarrow> string" where
  "show_nat n =
     (if n < 10 then [''0123456789'' ! n]
      else show_nat (n div 10) @ [''0123456789'' ! (n mod 10)])"

declare show_nat.simps [simp del]

text \<open>\<open>${v}\<close> for a value that is a string or \<open>undefined\<close>.\<close>

definition interpolate :: "string option \<Rightarrow> string" where
  "interpolate v = (case v of None \<Rightarrow> ''undefined'' | Some m \<Rightarrow> m)"

definition show_int :: "int \<Rightarrow> string" where
  "show_int i = (if i < 0 then CHR ''-'' # show_nat (nat (- i)) else show_nat (nat i))"

subsection \<open>String methods\<close>

text \<open>
  \<open>s.startsWith(p)\<close>, \<open>s.substring(a, b)\<close> (indices are clamped to the length and
  swapped when \<open>a > b\<close>), \<open>s.split(c)\<close> and \<open>s.toLowerCase()\<close>. Characters outside
  \<open>A\<close>..\<open>Z\<close> are left as they are by \<open>toLowerCase\<close>; the comparison with the four font
  names, which are ASCII, observes nothing else.
\<close>

definition startsWith :: "string \<Rightarrow> string \<Rightarrow> bool" where
  "startsWith s p = (take (length p) s = p)"

definition substring :: "string \<Rightarrow> nat \<Rightarrow> nat \<Rightarrow> string" where
  "substring s a b = drop (min a b) (take (max a b) s)"

fun split :: "char \<Rightarrow> string \<Rightarrow> string list" where
  "split c [] = [[]]"
| "split c (x # xs) =
     (if x = c then [] # split c xs
      else (case split c xs of
              [] \<Rightarrow> [[x]]
            | w # ws \<Rightarrow> (x # w) # ws))"

definition lower_char :: "char \<Rightarrow> char" where
  "lower_char c =
     (case map_of (zip ''ABCDEFGHIJKLMNOPQRSTUVWXYZ'' ''abcdefghijklmnopqrstuvwxyz'') c of
        None \<Rightarrow> c
      | Some d \<Rightarrow> d)"

definition toLowerCase :: "string \<Rightarrow> string" where
  "toLowerCase s = map lower_char s"

subsection \<open>parseInt with radix 16\<close>

text \<open>
  \<open>parseInt(s, 16)\<close> as ECMAScript defines it: leading white space is skipped, a sign is
  read, a prefix \<open>0x\<close> or \<open>0X\<close> is dropped, and the longest run of hexadecimal digits
  that follows is the value; with no digit the result is \<open>NaN\<close>.
\<close>

definition is_space :: "char \<Rightarrow> bool" where
  "is_space c = (c \<in> set [CHR 0x09, CHR 0x0A, CHR 0x0B, CHR 0x0C, CHR 0x0D, CHR 0x20, CHR 0xA0])"

definition hex_value :: "char \<Rightarrow> nat option" where
  "hex_value c =
     map_of (zip ''0123456789abcdefABCDEF''
       [0, 1, 2, 3, 4, 5, 6, 7, 8, 9, 10, 11, 12, 13, 14, 15, 10, 11, 12, 13, 14, 15]) c"

definition is_hex :: "char \<Rightarrow> bool" where
  "is_hex c = (hex_value c \<noteq> None)"

definition hex_digits_value :: "string \<Rightarrow> nat" where
  "hex_digits_value z = foldl (\<lambda>acc c. 16 * acc + (case hex_value c of None \<Rightarrow> 0 | Some v \<Rightarrow> v)) 0 z"

definition parseInt16 :: "string \<Rightarrow> jsnum" where
  "parseInt16 s =
     (let s1 = dropWhile is_space s;
          negative = (s1 \<noteq> [] \<and> hd s1 = CHR ''-'');
          s2 = (if s1 \<noteq> [] \<and> (hd s1 = CHR ''+'' \<or> hd s1 = CHR ''-'') then tl s1 else s1);
          s3 = (if take 2 s2 = ''0x'' \<or> take 2 s2 = ''0X'' then drop 2 s2 else s2);
          z = takeWhile is_hex s3
      in if z = [] then NaN
         else Num (if negative then - real (hex_digits_value z) else real (hex_digits_value z)))"

text \<open>The division \<open>v / d\<close> of a number that may be \<open>NaN\<close> by a finite non-zero one.\<close>

fun js_divide :: "jsnum \<Rightarrow> real \<Rightarrow> jsnum" where
  "js_divide NaN d = NaN"
| "js_divide (Num v) d = Num (v / d)"

section \<open>The interface of pdf-lib\<close>

text \<open>
  pdf-lib and \<open>Buffer\<close> are dependencies, not code of the repository: the signer is modelled
  over any implementation of the calls it makes. Every call that can throw returns a sum.
  A \<open>PDFDocument\<close> is mutable; a call that changes it returns the changed document, and a
  call that throws leaves it as it was. A page is addressed by its index in
  \<open>getPages()\<close> and exposes its width and height.
\<close>

datatype StandardFonts = Helvetica | HelveticaBold | TimesRoman | Courier

record ('doc, 'img, 'font, 'col) pdflib =
  load :: "bytes \<Rightarrow> jserror + 'doc"
  getPages :: "'doc \<Rightarrow> (real \<times> real) list"
  base64 :: "string \<Rightarrow> bytes"
  embedPng :: "'doc \<Rightarrow> bytes \<Rightarrow> jserror + ('doc \<times> 'img)"
  embedJpg :: "'doc \<Rightarrow> bytes \<Rightarrow> jserror + ('doc \<times> 'img)"
  dims :: "'img \<Rightarrow> real \<times> real"
  drawImage :: "'doc \<Rightarrow> nat \<Rightarrow> 'img \<Rightarrow> real \<Rightarrow> real \<Rightarrow> real \<Rightarrow> real \<Rightarrow> jserror + 'doc"
  embedFont :: "'doc \<Rightarrow> StandardFonts \<Rightarrow> jserror + ('doc \<times> 'font)"
  rgb :: "jsnum \<Rightarrow> jsnum \<Rightarrow> jsnum \<Rightarrow> jserror + 'col"
  drawText :: "'doc \<Rightarrow> nat \<Rightarrow> string \<Rightarrow> real \<Rightarrow> real \<Rightarrow> 'font \<Rightarrow> real \<Rightarrow> 'col \<Rightarrow> jserror + 'doc"
  save :: "'doc \<Rightarrow> jserror + bytes"

text \<open>
  Modelled from the spec: \<open>PDFImage.scale\<close> belongs to pdf-lib and is not under src/. The
  spec describes it as an operation "producing width/height scaled by a linear factor"
  from the image's intrinsic width and height.
\<close>

definition scale :: "real \<times> real \<Rightarrow> real \<Rightarrow> real \<times> real" where
  "scale d factor = (fst d * factor, snd d * factor)"

section \<open>src/utils/pdf-signer.js\<close>

text \<open>The check of lines 22-24 and 89-91, with the error it throws.\<close>

definition page_out_of_bounds :: "int \<Rightarrow> nat \<Rightarrow> jserror" where
  "page_out_of_bounds pageNumber n =
     Error (''Page number '' @ show_int pageNumber @ '' is out of bounds. PDF has ''
            @ show_nat n @ '' pages.'')"

definition unsupported_image_format :: jserror where
  "unsupported_image_format = Error ''Unsupported image format. Only PNG and JPEG are supported.''"

text \<open>\<open>Buffer.from(undefined, 'base64')\<close> throws this \<open>TypeError\<close>.\<close>

definition buffer_from_undefined :: jserror where
  "buffer_from_undefined =
     TypeError (''The first argument must be of type string or an instance of Buffer, ''
       @ ''ArrayBuffer, or Array or an Array-like Object. Received undefined'')"

text \<open>Lines 31-34 and 98-101: the coordinates are compared with the page and only reported.\<close>

definition validate_coordinates :: "real \<Rightarrow> real \<Rightarrow> real \<Rightarrow> real \<Rightarrow> unit io" where
  "validate_coordinates x y pageWidth pageHeight =
     (if x < 0 \<or> y < 0 \<or> x > pageWidth \<or> y > pageHeight
      then console (WarnCoordinates x y pageWidth pageHeight)
      else ret ())"

text \<open>The \<open>catch\<close> that ends both functions: it prints the error and throws it again.\<close>

definition log_and_rethrow :: "string \<Rightarrow> 'a io \<Rightarrow> 'a io" where
  "log_and_rethrow name m =
     try_catch m (\<lambda>error. bind (console (ErrorInSigner name error)) (\<lambda>_. throw error))"

text \<open>Lines 12-66.\<close>

definition signPdfWithImage ::
  "('doc, 'img, 'font, 'col) pdflib \<Rightarrow> bytes \<Rightarrow> string \<Rightarrow> real \<Rightarrow> real \<Rightarrow> int \<Rightarrow> bytes io" where
  "signPdfWithImage L pdfBytes imageDataUrl x y pageNumber =
     log_and_rethrow ''signPdfWithImage''
      (bind (lift (load L pdfBytes)) (\<lambda>pdfDoc.
       let pages = getPages L pdfDoc in
       if pageNumber < 1 \<or> pageNumber > int (length pages)
       then throw (page_out_of_bounds pageNumber (length pages))
       else
         let page = pages ! nat (pageNumber - 1);
             pageWidth = fst page;
             pageHeight = snd page
         in
         bind (validate_coordinates x y pageWidth pageHeight) (\<lambda>_.
         bind (case split CHR '','' imageDataUrl of
                 _ # payload # _ \<Rightarrow> ret (base64 L payload)
               | _ \<Rightarrow> throw buffer_from_undefined) (\<lambda>imageBytes.
         bind (if startsWith imageDataUrl ''data:image/png''
               then lift (embedPng L pdfDoc imageBytes)
               else if startsWith imageDataUrl ''data:image/jpeg''
               then lift (embedJpg L pdfDoc imageBytes)
               else throw unsupported_image_format) (\<lambda>(pdfDoc1, image).
         let imageDims = scale (dims L image) (2 / 10) in
         bind (lift (drawImage L pdfDoc1 (nat (pageNumber - 1)) image x y
                       (fst imageDims) (snd imageDims))) (\<lambda>pdfDoc2.
         lift (save L pdfDoc2)))))))"

text \<open>
  Lines 103-128, the inner \<open>try\<close> of \<open>signPdfWithText\<close>: the \<open>switch\<close> on the lower-cased
  name, and the \<open>catch\<close> that embeds Helvetica.
\<close>

definition embed_requested_font ::
  "('doc, 'img, 'font, 'col) pdflib \<Rightarrow> 'doc \<Rightarrow> string \<Rightarrow> ('doc \<times> 'font) io" where
  "embed_requested_font L pdfDoc fontName =
     try_catch
       (let name = toLowerCase fontName in
        if name = ''helvetica'' then lift (embedFont L pdfDoc Helvetica)
        else if name = ''helvetica-bold'' then lift (embedFont L pdfDoc HelveticaBold)
        else if name = ''times-roman'' then lift (embedFont L pdfDoc TimesRoman)
        else if name = ''courier'' then lift (embedFont L pdfDoc Courier)
        else bind (console (WarnFontNotStandard fontName))
               (\<lambda>_. lift (embedFont L pdfDoc Helvetica)))
       (\<lambda>e. bind (console (ErrorEmbeddingFont fontName e))
               (\<lambda>_. lift (embedFont L pdfDoc Helvetica)))"

text \<open>Lines 131-136, the arrow function \<open>hexToRgb\<close>.\<close>

definition hexToRgb :: "('doc, 'img, 'font, 'col) pdflib \<Rightarrow> string \<Rightarrow> 'col io" where
  "hexToRgb L hex =
     (let r = js_divide (parseInt16 (substring hex 1 3)) 255;
          g = js_divide (parseInt16 (substring hex 3 5)) 255;
          b = js_divide (parseInt16 (substring hex 5 7)) 255
      in lift (rgb L r g b))"

text \<open>Lines 80-158. The parameter \<open>text\<close> of the source is \<open>signatureText\<close> here.\<close>

definition signPdfWithText ::
  "('doc, 'img, 'font, 'col) pdflib \<Rightarrow> bytes \<Rightarrow> string \<Rightarrow> real \<Rightarrow> real \<Rightarrow> int
     \<Rightarrow> string \<Rightarrow> real \<Rightarrow> string \<Rightarrow> bytes io" where
  "signPdfWithText L pdfBytes signatureText x y pageNumber fontName fontSize colorHex =
     log_and_rethrow ''signPdfWithText''
      (bind (lift (load L pdfBytes)) (\<lambda>pdfDoc.
       let pages = getPages L pdfDoc in
       if pageNumber < 1 \<or> pageNumber > int (length pages)
       then throw (page_out_of_bounds pageNumber (length pages))
       else
         let page = pages ! nat (pageNumber - 1);
             pageWidth = fst page;
             pageHeight = snd page
         in
         bind (validate_coordinates x y pageWidth pageHeight) (\<lambda>_.
         bind (embed_requested_font L pdfDoc fontName) (\<lambda>(pdfDoc1, font).
         bind (hexToRgb L colorHex) (\<lambda>color.
         bind (lift (drawText L pdfDoc1 (nat (pageNumber - 1)) signatureText x y font fontSize color))
           (\<lambda>pdfDoc2.
         lift (save L pdfDoc2)))))))"

section \<open>src/routes/api.js: POST /apply-signatures\<close>

text \<open>
  One element of the parsed \<open>signatures\<close> array, with the fields the route reads and the
  types the signer's JSDoc gives them. \<open>sig_type\<close> is any string.
\<close>

record signature =
  sig_type :: string
  sig_data :: string
  sig_x :: real
  sig_y :: real
  sig_pageNumber :: int
  sig_font :: string
  sig_fontSize :: real
  sig_color :: string

datatype response =
    Json nat "(string \<times> string) list"
  | SendBuffer "(string \<times> string) list" bytes

text \<open>Lines 147-157, the body of the inner \<open>try\<close>.\<close>

definition dispatch ::
  "('doc, 'img, 'font, 'col) pdflib \<Rightarrow> bytes \<Rightarrow> signature \<Rightarrow> bytes io" where
  "dispatch L pdfBytes s =
     (if sig_type s = ''image''
      then signPdfWithImage L pdfBytes (sig_data s) (sig_x s) (sig_y s) (sig_pageNumber s)
      else if sig_type s = ''text''
      then signPdfWithText L pdfBytes (sig_data s) (sig_x s) (sig_y s) (sig_pageNumber s)
             (sig_font s) (sig_fontSize s) (sig_color s)
      else bind (console (WarnUnknownType (sig_type s))) (\<lambda>_. ret pdfBytes))"

text \<open>Lines 146-161, one turn of the loop for index \<open>i\<close>.\<close>

definition apply_signature ::
  "('doc, 'img, 'font, 'col) pdflib \<Rightarrow> nat \<Rightarrow> bytes \<Rightarrow> signature \<Rightarrow> bytes io" where
  "apply_signature L i pdfBytes s =
     try_catch (dispatch L pdfBytes s)
       (\<lambda>signatureError.
          bind (console (ErrorApplyingSignature (i + 1) signatureError)) (\<lambda>_.
          throw (Error (''Failed to apply signature '' @ show_nat (i + 1) @ '': ''
                        @ interpolate (message signatureError)))))"

text \<open>Lines 142-162, the loop from index \<open>i\<close> over the signatures that remain.\<close>

fun apply_loop ::
  "('doc, 'img, 'font, 'col) pdflib \<Rightarrow> nat \<Rightarrow> bytes \<Rightarrow> signature list \<Rightarrow> bytes io" where
  "apply_loop L i pdfBytes [] = ret pdfBytes"
| "apply_loop L i pdfBytes (s # rest) =
     bind (apply_signature L i pdfBytes s) (\<lambda>pdfBytes'. apply_loop L (i + 1) pdfBytes' rest)"

text \<open>
  Lines 136-180: the route from the parsed array on, with the \<open>catch\<close> of lines 173-180.
  The result is the console output and the response sent. \<open>res.json\<close> leaves out a
  property whose value is \<open>undefined\<close>.
\<close>

definition applySignatures ::
  "('doc, 'img, 'font, 'col) pdflib \<Rightarrow> bytes \<Rightarrow> signature list \<Rightarrow> event list \<times> response" where
  "applySignatures L pdfBytes signaturesArray =
     (if length signaturesArray = 0
      then ([ErrorNoSignaturesInArray], Json 400 [(''msg'', ''No signatures provided'')])
      else
        (case apply_loop L 0 pdfBytes signaturesArray of
           (l, Inr finalBytes) \<Rightarrow>
             (l, SendBuffer [(''Content-Type'', ''application/pdf''),
                             (''Content-Disposition'', ''attachment; filename=signed_document.pdf'')]
                   finalBytes)
         | (l, Inl err) \<Rightarrow>
             (l @ [ErrorApplyingSignatures (message err), ErrorStack err],
              Json 500 ((''error'', ''Server Error during signature application'')
                        # (case message err of
                             None \<Rightarrow> []
                           | Some m \<Rightarrow> [(''details'', m)])))))"

section \<open>An executable instance of the library\<close>

text \<open>
  A small implementation of the interface, on which the model runs on concrete requests.
  A document is its own bytes: the first byte is the number of pages, all of size
  612 x 792, and every drawing appends a byte. An empty buffer does not load, and an empty
  payload is no image: for it \<open>embedPng\<close> throws a string, as pdf-lib's PNG decoder does.
\<close>

definition stub_pdflib :: "(bytes, bytes, StandardFonts, real \<times> real \<times> real) pdflib" where
  "stub_pdflib =
     \<lparr> load = (\<lambda>b. if b = [] then Inl (Error ''Failed to parse PDF document'') else Inr b),
       getPages = (\<lambda>d. replicate (unat (hd d)) (612, 792)),
       base64 = (\<lambda>s. replicate (length s) 0),
       embedPng = (\<lambda>d b. if b = [] then Inl (ThrownString ''The input is not a PNG file!'')
                         else Inr (d, b)),
       embedJpg = (\<lambda>d b. if b = [] then Inl (Error ''SOI not found in JPEG'') else Inr (d, b)),
       dims = (\<lambda>img. (100 * real (length img), 50)),
       drawImage = (\<lambda>d i img x y w h. Inr (d @ [1])),
       embedFont = (\<lambda>d f. Inr (d, f)),
       rgb = (\<lambda>r g b.
                (case (r, g, b) of
                   (Num r', Num g', Num b') \<Rightarrow>
                     if 0 \<le> r' \<and> r' \<le> 1 \<and> 0 \<le> g' \<and> g' \<le> 1 \<and> 0 \<le> b' \<and> b' \<le> 1
                     then Inr (r', g', b')
                     else Inl (Error ''color component must be at least 0 and at most 1'')
                 | _ \<Rightarrow> Inl (Error ''color component must be at least 0 and at most 1''))),
       drawText = (\<lambda>d i t x y f size c. Inr (d @ [2])),
       save = (\<lambda>d. Inr d) \<rparr>"

text \<open>The same library when no font can be embedded, and when no document can be loaded.\<close>

definition fontless_pdflib :: "(bytes, bytes, StandardFonts, real \<times> real \<times> real) pdflib" where
  "fontless_pdflib = stub_pdflib \<lparr> embedFont := (\<lambda>d f. Inl (Error ''Font embedding failed'')) \<rparr>"

definition loadless_pdflib :: "(bytes, bytes, StandardFonts, real \<times> real \<times> real) pdflib" where
  "loadless_pdflib = stub_pdflib \<lparr> load := (\<lambda>b. Inl (Error ''Failed to parse PDF document'')) \<rparr>"

text \<open>The same library when Helvetica-Bold alone cannot be embedded.\<close>

definition boldless_pdflib :: "(bytes, bytes, StandardFonts, real \<times> real \<times> real) pdflib" where
  "boldless_pdflib =
     stub_pdflib \<lparr> embedFont :=
       (\<lambda>d f. if f = HelveticaBold then Inl (Error ''Font embedding failed'') else Inr (d, f)) \<rparr>"

text \<open>Requests for a one-page document: a typed name, an image, an image on a page that
  does not exist, and a request of a type the route does not know.\<close>

definition text_request :: signature where
  "text_request =
     \<lparr> sig_type = ''text'', sig_data = ''Jane Doe'', sig_x = 100, sig_y = 700,
       sig_pageNumber = 1, sig_font = ''Helvetica'', sig_fontSize = 24, sig_color = ''#000000'' \<rparr>"

definition image_request :: signature where
  "image_request =
     \<lparr> sig_type = ''image'', sig_data = ''data:image/png;base64,AAAA'', sig_x = 10, sig_y = 10,
       sig_pageNumber = 1, sig_font = [], sig_fontSize = 0, sig_color = [] \<rparr>"

definition bad_page_request :: signature where
  "bad_page_request = image_request \<lparr> sig_pageNumber := 5 \<rparr>"

definition stamp_request :: signature where
  "stamp_request = image_request \<lparr> sig_type := ''stamp'' \<rparr>"

definition empty_png_request :: signature where
  "empty_png_request = image_request \<lparr> sig_data := ''data:image/png;base64,'' \<rparr>"

section \<open>Sequencing\<close>

lemma bind_ret [simp]: "bind (ret v) f = f v"
  by (simp add: bind_def ret_def split: prod.splits)

lemma bind_throw [simp]: "bind (throw e) f = throw e"
  by (simp add: bind_def throw_def)

lemma bind_lift_Inr [simp]: "bind (lift (Inr v)) f = f v"
  by (simp add: bind_def lift_def split: prod.splits)

lemma bind_lift_Inl [simp]: "bind (lift (Inl e)) f = throw e"
  by (simp add: bind_def lift_def throw_def)

lemma bind_console [simp]: "bind (console ev) f = (ev # fst (f ()), snd (f ()))"
  by (simp add: bind_def console_def split: prod.splits)

lemma bind_assoc: "bind (bind m f) g = bind m (\<lambda>v. bind (f v) g)"
  by (auto simp: bind_def split: prod.splits sum.splits)

lemma bind_pair_Inr [simp]: "bind (l, Inr v) f = (l @ fst (f v), snd (f v))"
  by (simp add: bind_def split: prod.splits)

lemma bind_pair_Inl [simp]: "bind (l, Inl e) f = (l, Inl e)"
  by (simp add: bind_def)

lemma try_catch_Inr [simp]: "try_catch (l, Inr v) h = (l, Inr v)"
  by (simp add: try_catch_def)

lemma try_catch_Inl [simp]: "try_catch (l, Inl e) h = (l @ fst (h e), snd (h e))"
  by (simp add: try_catch_def split: prod.splits)

lemma try_catch_throw [simp]: "try_catch (throw e) h = h e"
  by (simp add: try_catch_def throw_def split: prod.splits)

lemma try_catch_ret [simp]: "try_catch (ret v) h = ret v"
  by (simp add: try_catch_def ret_def)

lemma bind_snd: "snd (bind m f) = (case snd m of Inl e \<Rightarrow> Inl e | Inr v \<Rightarrow> snd (f v))"
  by (cases m; cases "snd m") (auto simp: bind_def split: prod.splits)

lemma try_catch_lift:
  "try_catch (lift r) h = (case r of Inl e \<Rightarrow> h e | Inr v \<Rightarrow> ([], Inr v))"
  by (cases r) (simp_all add: lift_def)

lemma log_and_rethrow_Inl [simp]:
  "log_and_rethrow name (l, Inl e) = (l @ [ErrorInSigner name e], Inl e)"
  by (simp add: log_and_rethrow_def throw_def)

lemma log_and_rethrow_Inr [simp]:
  "log_and_rethrow name (l, Inr v) = (l, Inr v)"
  by (simp add: log_and_rethrow_def)

lemma log_and_rethrow_throw [simp]:
  "log_and_rethrow name (throw e) = ([ErrorInSigner name e], Inl e)"
  by (simp add: throw_def)

lemma snd_log_and_rethrow [simp]: "snd (log_and_rethrow name m) = snd m"
  by (cases m; cases "snd m")
     (auto simp: log_and_rethrow_def try_catch_def throw_def split: prod.splits)

lemma snd_validate_coordinates [simp]: "snd (validate_coordinates x y w h) = Inr ()"
  by (simp add: validate_coordinates_def console_def ret_def)

text \<open>The definitions a concrete run unfolds.\<close>

lemmas run_defs =
  signPdfWithImage_def signPdfWithText_def embed_requested_font_def hexToRgb_def
  validate_coordinates_def page_out_of_bounds_def unsupported_image_format_def
  buffer_from_undefined_def scale_def dispatch_def apply_signature_def applySignatures_def
  show_int_def show_nat.simps startsWith_def substring_def toLowerCase_def lower_char_def
  parseInt16_def is_space_def is_hex_def hex_value_def hex_digits_value_def
  lift_def ret_def throw_def console_def Let_def
  stub_pdflib_def fontless_pdflib_def loadless_pdflib_def boldless_pdflib_def
  text_request_def image_request_def bad_page_request_def stamp_request_def
  empty_png_request_def interpolate_def

section \<open>The page number\<close>

text \<open>
  Claim C2. When the document loads and \<open>pageNumber\<close> is below 1 or above the number of
  pages, \<open>signPdfWithImage\<close> and \<open>signPdfWithText\<close> both throw the same error, after
  printing it, and its message holds the requested number and the page count.
\<close>

theorem page_number_out_of_bounds:
  assumes "load L pdfBytes = Inr pdfDoc"
    and "pageNumber < 1 \<or> pageNumber > int (length (getPages L pdfDoc))"
  shows "signPdfWithImage L pdfBytes imageDataUrl x y pageNumber =
           ([ErrorInSigner ''signPdfWithImage''
               (page_out_of_bounds pageNumber (length (getPages L pdfDoc)))],
            Inl (page_out_of_bounds pageNumber (length (getPages L pdfDoc))))
       \<and> signPdfWithText L pdfBytes signatureText x y pageNumber fontName fontSize colorHex =
           ([ErrorInSigner ''signPdfWithText''
               (page_out_of_bounds pageNumber (length (getPages L pdfDoc)))],
            Inl (page_out_of_bounds pageNumber (length (getPages L pdfDoc))))
       \<and> message (page_out_of_bounds pageNumber (length (getPages L pdfDoc))) =
           Some (''Page number '' @ show_int pageNumber @ '' is out of bounds. PDF has ''
                 @ show_nat (length (getPages L pdfDoc)) @ '' pages.'')"
  using assms
  by (simp add: signPdfWithImage_def signPdfWithText_def page_out_of_bounds_def Let_def)

text \<open>Page 0 and page 2 of a one-page document.\<close>

theorem page_number_out_of_bounds_witness:
  "signPdfWithImage stub_pdflib [1] ''data:image/png;base64,AAAA'' 10 10 0 =
     ([ErrorInSigner ''signPdfWithImage''
         (Error ''Page number 0 is out of bounds. PDF has 1 pages.'')],
      Inl (Error ''Page number 0 is out of bounds. PDF has 1 pages.''))
   \<and> signPdfWithText stub_pdflib [1] ''Jane Doe'' 10 10 2 ''Helvetica'' 24 ''#000000'' =
     ([ErrorInSigner ''signPdfWithText''
         (Error ''Page number 2 is out of bounds. PDF has 1 pages.'')],
      Inl (Error ''Page number 2 is out of bounds. PDF has 1 pages.''))"
  using page_number_out_of_bounds [where L = stub_pdflib and pdfBytes = "[1]" and pdfDoc = "[1]"
      and pageNumber = 0 and imageDataUrl = "''data:image/png;base64,AAAA''" and x = 10 and y = 10]
    page_number_out_of_bounds [where L = stub_pdflib and pdfBytes = "[1]" and pdfDoc = "[1]"
      and pageNumber = 2 and signatureText = "''Jane Doe''" and x = 10 and y = 10
      and fontName = "''Helvetica''" and fontSize = 24 and colorHex = "''#000000''"]
  by (simp add: stub_pdflib_def page_out_of_bounds_def show_int_def show_nat.simps)

section \<open>The image format\<close>

lemma split_two_parts: "c \<in> set s \<Longrightarrow> \<exists>a p r. split c s = a # p # r"
proof (induction s)
  case Nil
  then show ?case by simp
next
  case (Cons x s)
  show ?case
  proof (cases "x = c")
    case True
    then show ?thesis by (cases s) (auto split: list.splits)
  next
    case False
    with Cons obtain a p r where "split c s = a # p # r" by auto
    with False show ?thesis by simp
  qed
qed

text \<open>
  Claim C5, as the code has it. When the document loads, the page exists and the data URL
  holds a comma, a URL that starts with neither \<open>data:image/png\<close> nor
  \<open>data:image/jpeg\<close> makes \<open>signPdfWithImage\<close> throw the error
  "Unsupported image format. Only PNG and JPEG are supported.".
\<close>

theorem unsupported_prefix_rejected:
  assumes "load L pdfBytes = Inr pdfDoc"
    and "1 \<le> pageNumber" and "pageNumber \<le> int (length (getPages L pdfDoc))"
    and "CHR '','' \<in> set imageDataUrl"
    and "\<not> startsWith imageDataUrl ''data:image/png''"
    and "\<not> startsWith imageDataUrl ''data:image/jpeg''"
  shows "snd (signPdfWithImage L pdfBytes imageDataUrl x y pageNumber) =
           Inl (Error ''Unsupported image format. Only PNG and JPEG are supported.'')"
proof -
  obtain a p r where "split CHR '','' imageDataUrl = a # p # r"
    using split_two_parts [OF assms(4)] by blast
  with assms show ?thesis
    by (simp add: signPdfWithImage_def Let_def bind_snd unsupported_image_format_def
          throw_def ret_def)
qed

theorem unsupported_prefix_rejected_witness:
  "snd (signPdfWithImage stub_pdflib [1] ''data:image/gif;base64,AAAA'' 10 10 1) =
     Inl (Error ''Unsupported image format. Only PNG and JPEG are supported.'')"
  using unsupported_prefix_rejected [where L = stub_pdflib and pdfBytes = "[1]" and pdfDoc = "[1]"
      and pageNumber = 1 and imageDataUrl = "''data:image/gif;base64,AAAA''" and x = 10 and y = 10]
  by (simp add: stub_pdflib_def startsWith_def)

text \<open>
  A string with no comma starts with neither prefix, and \<open>signPdfWithImage\<close> throws the
  \<open>TypeError\<close> of \<open>Buffer.from\<close> at line 37, before the prefix is looked at.
\<close>

theorem no_comma_counterexample:
  "\<not> startsWith ''signature.gif'' ''data:image/png''
   \<and> \<not> startsWith ''signature.gif'' ''data:image/jpeg''
   \<and> snd (signPdfWithImage stub_pdflib [1] ''signature.gif'' 10 10 1) = Inl buffer_from_undefined
   \<and> buffer_from_undefined \<noteq> Error ''Unsupported image format. Only PNG and JPEG are supported.''"
  by (simp add: signPdfWithImage_def stub_pdflib_def startsWith_def Let_def bind_snd throw_def
        buffer_from_undefined_def)

section \<open>Coordinates and scaling\<close>

lemma jpeg_is_not_png:
  assumes "startsWith s ''data:image/jpeg''"
  shows "\<not> startsWith s ''data:image/png''"
proof
  assume "startsWith s ''data:image/png''"
  then have p: "take (length ''data:image/png'') s = ''data:image/png''"
    by (simp only: startsWith_def)
  from assms have j: "take (length ''data:image/jpeg'') s = ''data:image/jpeg''"
    by (simp only: startsWith_def)
  have "take (length ''data:image/png'') (take (length ''data:image/jpeg'') s)
          = take (length ''data:image/png'') s"
    by (simp add: min_def)
  then have "take (length ''data:image/png'') ''data:image/jpeg'' = ''data:image/png''"
    by (simp only: j p)
  then show False by simp
qed

text \<open>
  Claim C6. On a document that loads and a page that exists, with a payload the library
  embeds: whenever the library draws at \<open>(x, y)\<close> and saves, \<open>signPdfWithImage\<close> and
  \<open>signPdfWithText\<close> return the saved bytes of exactly that drawing, wherever \<open>(x, y)\<close>
  lies. Coordinates outside the page add one \<open>console.warn\<close> and nothing else.
\<close>

theorem coordinates_only_warned:
  assumes "load L pdfBytes = Inr pdfDoc"
    and "1 \<le> pageNumber" and "pageNumber \<le> int (length (getPages L pdfDoc))"
    and "getPages L pdfDoc ! nat (pageNumber - 1) = (pageWidth, pageHeight)"
  shows "(split CHR '','' imageDataUrl = a # payload # r \<longrightarrow>
          (startsWith imageDataUrl ''data:image/png'' \<and>
             embedPng L pdfDoc (base64 L payload) = Inr (pdfDoc1, img)
           \<or> startsWith imageDataUrl ''data:image/jpeg'' \<and>
             embedJpg L pdfDoc (base64 L payload) = Inr (pdfDoc1, img)) \<longrightarrow>
          drawImage L pdfDoc1 (nat (pageNumber - 1)) img x y
            (fst (dims L img) * 0.2) (snd (dims L img) * 0.2) = Inr pdfDoc2 \<longrightarrow>
          save L pdfDoc2 = Inr signedBytes \<longrightarrow>
          signPdfWithImage L pdfBytes imageDataUrl x y pageNumber =
            (if x < 0 \<or> y < 0 \<or> x > pageWidth \<or> y > pageHeight
             then [WarnCoordinates x y pageWidth pageHeight] else [], Inr signedBytes))
       \<and> (embed_requested_font L pdfDoc fontName = (l, Inr (pdfDoc1', font)) \<longrightarrow>
          hexToRgb L colorHex = ([], Inr color) \<longrightarrow>
          drawText L pdfDoc1' (nat (pageNumber - 1)) signatureText x y font fontSize color = Inr pdfDoc2' \<longrightarrow>
          save L pdfDoc2' = Inr signedBytes' \<longrightarrow>
          signPdfWithText L pdfBytes signatureText x y pageNumber fontName fontSize colorHex =
            ((if x < 0 \<or> y < 0 \<or> x > pageWidth \<or> y > pageHeight
              then [WarnCoordinates x y pageWidth pageHeight] else []) @ l, Inr signedBytes'))
       \<and> is_warning (WarnCoordinates x y pageWidth pageHeight)"
proof (intro conjI impI)
  assume "split CHR '','' imageDataUrl = a # payload # r"
    and "startsWith imageDataUrl ''data:image/png'' \<and>
             embedPng L pdfDoc (base64 L payload) = Inr (pdfDoc1, img)
           \<or> startsWith imageDataUrl ''data:image/jpeg'' \<and>
             embedJpg L pdfDoc (base64 L payload) = Inr (pdfDoc1, img)"
    and "drawImage L pdfDoc1 (nat (pageNumber - 1)) img x y
            (fst (dims L img) * 0.2) (snd (dims L img) * 0.2) = Inr pdfDoc2"
    and "save L pdfDoc2 = Inr signedBytes"
  with assms show "signPdfWithImage L pdfBytes imageDataUrl x y pageNumber =
            (if x < 0 \<or> y < 0 \<or> x > pageWidth \<or> y > pageHeight
             then [WarnCoordinates x y pageWidth pageHeight] else [], Inr signedBytes)"
    by (auto simp: signPdfWithImage_def Let_def scale_def validate_coordinates_def
          lift_def ret_def jpeg_is_not_png)
next
  assume "embed_requested_font L pdfDoc fontName = (l, Inr (pdfDoc1', font))"
    and "hexToRgb L colorHex = ([], Inr color)"
    and "drawText L pdfDoc1' (nat (pageNumber - 1)) signatureText x y font fontSize color = Inr pdfDoc2'"
    and "save L pdfDoc2' = Inr signedBytes'"
  with assms show "signPdfWithText L pdfBytes signatureText x y pageNumber fontName fontSize colorHex =
            ((if x < 0 \<or> y < 0 \<or> x > pageWidth \<or> y > pageHeight
              then [WarnCoordinates x y pageWidth pageHeight] else []) @ l, Inr signedBytes')"
    by (auto simp: signPdfWithText_def Let_def validate_coordinates_def lift_def ret_def)
next
  show "is_warning (WarnCoordinates x y pageWidth pageHeight)" by simp
qed

text \<open>The point (700, 900) lies outside a page of 612 x 792.\<close>

theorem coordinates_only_warned_witness:
  "signPdfWithImage stub_pdflib [1] ''data:image/png;base64,AAAA'' 700 900 1 =
     ([WarnCoordinates 700 900 612 792], Inr [1, 1])
   \<and> signPdfWithText stub_pdflib [1] ''Jane Doe'' 700 900 1 ''Helvetica'' 24 ''#000000'' =
     ([WarnCoordinates 700 900 612 792], Inr [1, 2])"
  using coordinates_only_warned [where L = stub_pdflib and pdfBytes = "[1]" and pdfDoc = "[1]"
      and pageNumber = 1 and pageWidth = 612 and pageHeight = 792 and x = 700 and y = 900
      and imageDataUrl = "''data:image/png;base64,AAAA''" and a = "''data:image/png;base64''"
      and payload = "''AAAA''" and r = "[]" and ?pdfDoc1.0 = "[1]" and img = "[0, 0, 0, 0]"
      and ?pdfDoc2.0 = "[1, 1]" and signedBytes = "[1, 1]"
      and fontName = "''Helvetica''" and l = "[]" and pdfDoc1' = "[1]" and font = Helvetica
      and colorHex = "''#000000''" and color = "(0, 0, 0)" and signatureText = "''Jane Doe''"
      and fontSize = 24 and pdfDoc2' = "[1, 2]" and signedBytes' = "[1, 2]"]
  by (simp add: run_defs)

text \<open>
  Claim C9. When the image is embedded, \<open>signPdfWithImage\<close> draws it with its intrinsic
  width and height each multiplied by 0.2, whatever the request holds; what it returns is
  the result of that drawing and of saving it.
\<close>

theorem image_scaled_by_fixed_factor:
  assumes "load L pdfBytes = Inr pdfDoc"
    and "1 \<le> pageNumber" and "pageNumber \<le> int (length (getPages L pdfDoc))"
    and "split CHR '','' imageDataUrl = a # payload # r"
    and "startsWith imageDataUrl ''data:image/png'' \<and>
             embedPng L pdfDoc (base64 L payload) = Inr (pdfDoc1, img)
           \<or> startsWith imageDataUrl ''data:image/jpeg'' \<and>
             embedJpg L pdfDoc (base64 L payload) = Inr (pdfDoc1, img)"
    and "dims L img = (width, height)"
  shows "snd (signPdfWithImage L pdfBytes imageDataUrl x y pageNumber) =
           (case drawImage L pdfDoc1 (nat (pageNumber - 1)) img x y
                   (width * 0.2) (height * 0.2) of
              Inl e \<Rightarrow> Inl e
            | Inr pdfDoc2 \<Rightarrow> save L pdfDoc2)"
  using assms
  by (auto simp: signPdfWithImage_def Let_def scale_def bind_snd lift_def ret_def
        jpeg_is_not_png split: sum.splits)

text \<open>An image of 400 x 50 is drawn 80 x 10.\<close>

theorem image_scaled_by_fixed_factor_witness:
  "dims stub_pdflib [0, 0, 0, 0] = (400, 50)
   \<and> snd (signPdfWithImage stub_pdflib [1] ''data:image/png;base64,AAAA'' 10 10 1) =
       (case drawImage stub_pdflib [1] 0 [0, 0, 0, 0] 10 10 80 10 of
          Inl e \<Rightarrow> Inl e
        | Inr pdfDoc2 \<Rightarrow> save stub_pdflib pdfDoc2)"
  using image_scaled_by_fixed_factor [where L = stub_pdflib and pdfBytes = "[1]"
      and pdfDoc = "[1]" and pageNumber = 1 and imageDataUrl = "''data:image/png;base64,AAAA''"
      and a = "''data:image/png;base64''" and payload = "''AAAA''" and r = "[]"
      and ?pdfDoc1.0 = "[1]" and img = "[0, 0, 0, 0]" and width = 400 and height = 50
      and x = 10 and y = 10]
  by (simp add: stub_pdflib_def startsWith_def)

section \<open>The colour\<close>

lemma hex_value_cases:
  "hex_value c = Some v \<Longrightarrow> c \<in> set ''0123456789abcdefABCDEF'' \<and> v < 16"
  by (auto simp: hex_value_def split: if_splits)

lemma hex_not_special:
  assumes "hex_value c = Some v"
  shows "\<not> is_space c" and "c \<noteq> CHR ''-''" and "c \<noteq> CHR ''+''"
    and "c \<noteq> CHR ''x''" and "c \<noteq> CHR ''X''"
  using hex_value_cases [OF assms] by (auto simp: is_space_def)

lemma parseInt16_pair:
  assumes "hex_value a = Some va" and "hex_value b = Some vb"
  shows "parseInt16 [a, b] = Num (real (16 * va + vb))"
  using assms hex_not_special [OF assms(1)] hex_not_special [OF assms(2)]
  by (simp add: parseInt16_def is_hex_def hex_digits_value_def Let_def)

lemma parseInt16_single:
  assumes "hex_value a = Some va"
  shows "parseInt16 [a] = Num (real va)"
  using assms hex_not_special [OF assms]
  by (simp add: parseInt16_def is_hex_def hex_digits_value_def Let_def)

text \<open>
  Claim C4, as the code has it. \<open>hexToRgb\<close> skips the first character of \<open>colorHex\<close>
  without looking at it. For \<open>#\<close> (or any one character) followed by six hexadecimal
  digits, each channel handed to \<open>rgb\<close> is \<open>parseInt\<close> of its pair of digits in base
  16, divided by 255, and lies between 0 and 1; \<open>signPdfWithText\<close> draws the text with
  the colour \<open>rgb\<close> returns for these channels. For the six digits alone, without the
  \<open>#\<close>, the channels are those of the second and third digit, of the fourth and fifth,
  and of the sixth digit by itself.
\<close>

theorem hex_colour_channels:
  assumes "hex_value h1 = Some v1" and "hex_value h2 = Some v2" and "hex_value h3 = Some v3"
    and "hex_value h4 = Some v4" and "hex_value h5 = Some v5" and "hex_value h6 = Some v6"
  shows "hexToRgb L [c, h1, h2, h3, h4, h5, h6] =
           ([], rgb L (Num (real (16 * v1 + v2) / 255)) (Num (real (16 * v3 + v4) / 255))
                      (Num (real (16 * v5 + v6) / 255)))
       \<and> parseInt16 [h1, h2] = Num (real (16 * v1 + v2))
       \<and> parseInt16 [h3, h4] = Num (real (16 * v3 + v4))
       \<and> parseInt16 [h5, h6] = Num (real (16 * v5 + v6))
       \<and> 0 \<le> real (16 * v1 + v2) / 255 \<and> real (16 * v1 + v2) / 255 \<le> 1
       \<and> 0 \<le> real (16 * v3 + v4) / 255 \<and> real (16 * v3 + v4) / 255 \<le> 1
       \<and> 0 \<le> real (16 * v5 + v6) / 255 \<and> real (16 * v5 + v6) / 255 \<le> 1
       \<and> hexToRgb L [h1, h2, h3, h4, h5, h6] =
           ([], rgb L (Num (real (16 * v2 + v3) / 255)) (Num (real (16 * v4 + v5) / 255))
                      (Num (real v6 / 255)))
       \<and> (load L pdfBytes = Inr pdfDoc \<longrightarrow>
            1 \<le> pageNumber \<and> pageNumber \<le> int (length (getPages L pdfDoc)) \<longrightarrow>
            snd (embed_requested_font L pdfDoc fontName) = Inr (pdfDoc1, font) \<longrightarrow>
            rgb L (Num (real (16 * v1 + v2) / 255)) (Num (real (16 * v3 + v4) / 255))
                  (Num (real (16 * v5 + v6) / 255)) = Inr color \<longrightarrow>
            snd (signPdfWithText L pdfBytes signatureText x y pageNumber fontName fontSize
                   [c, h1, h2, h3, h4, h5, h6]) =
              (case drawText L pdfDoc1 (nat (pageNumber - 1)) signatureText x y font fontSize color of
                 Inl e \<Rightarrow> Inl e
               | Inr pdfDoc2 \<Rightarrow> save L pdfDoc2))"
proof -
  have p1: "parseInt16 [h1, h2] = Num (real (16 * v1 + v2))"
    and p2: "parseInt16 [h3, h4] = Num (real (16 * v3 + v4))"
    and p3: "parseInt16 [h5, h6] = Num (real (16 * v5 + v6))"
    and q1: "parseInt16 [h2, h3] = Num (real (16 * v2 + v3))"
    and q2: "parseInt16 [h4, h5] = Num (real (16 * v4 + v5))"
    and q3: "parseInt16 [h6] = Num (real v6)"
    using assms by (simp_all only: parseInt16_pair parseInt16_single)
  have b: "v1 < 16" "v2 < 16" "v3 < 16" "v4 < 16" "v5 < 16" "v6 < 16"
    using assms hex_value_cases by blast+
  have h: "hexToRgb L [c, h1, h2, h3, h4, h5, h6] =
           ([], rgb L (Num (real (16 * v1 + v2) / 255)) (Num (real (16 * v3 + v4) / 255))
                      (Num (real (16 * v5 + v6) / 255)))"
    by (simp add: hexToRgb_def substring_def p1 p2 p3 lift_def del: of_nat_add of_nat_mult)
  have n: "hexToRgb L [h1, h2, h3, h4, h5, h6] =
           ([], rgb L (Num (real (16 * v2 + v3) / 255)) (Num (real (16 * v4 + v5) / 255))
                      (Num (real v6 / 255)))"
    by (simp add: hexToRgb_def substring_def q1 q2 q3 lift_def del: of_nat_add of_nat_mult)
  have r: "0 \<le> real (16 * v1 + v2) / 255 \<and> real (16 * v1 + v2) / 255 \<le> 1
       \<and> 0 \<le> real (16 * v3 + v4) / 255 \<and> real (16 * v3 + v4) / 255 \<le> 1
       \<and> 0 \<le> real (16 * v5 + v6) / 255 \<and> real (16 * v5 + v6) / 255 \<le> 1"
    using b by simp
  have d: "load L pdfBytes = Inr pdfDoc \<longrightarrow>
            1 \<le> pageNumber \<and> pageNumber \<le> int (length (getPages L pdfDoc)) \<longrightarrow>
            snd (embed_requested_font L pdfDoc fontName) = Inr (pdfDoc1, font) \<longrightarrow>
            rgb L (Num (real (16 * v1 + v2) / 255)) (Num (real (16 * v3 + v4) / 255))
                  (Num (real (16 * v5 + v6) / 255)) = Inr color \<longrightarrow>
            snd (signPdfWithText L pdfBytes signatureText x y pageNumber fontName fontSize
                   [c, h1, h2, h3, h4, h5, h6]) =
              (case drawText L pdfDoc1 (nat (pageNumber - 1)) signatureText x y font fontSize color of
                 Inl e \<Rightarrow> Inl e
               | Inr pdfDoc2 \<Rightarrow> save L pdfDoc2)"
    by (simp add: signPdfWithText_def Let_def bind_snd h lift_def split: sum.splits)
  from h p1 p2 p3 r n d show ?thesis by blast
qed

text \<open>
  The colour \<open>#FF0080\<close> has the channels 255/255, 0/255 and 128/255; the string
  \<open>FF0080\<close> has those of \<open>F0\<close>, \<open>08\<close> and \<open>0\<close>.
\<close>

theorem hex_colour_channels_witness:
  "hexToRgb stub_pdflib ''#FF0080'' = ([], Inr (1, 0, 128 / 255))
   \<and> parseInt16 ''FF'' = Num 255 \<and> parseInt16 ''00'' = Num 0 \<and> parseInt16 ''80'' = Num 128
   \<and> hexToRgb stub_pdflib ''FF0080'' = ([], Inr (240 / 255, 8 / 255, 0))
   \<and> snd (signPdfWithText stub_pdflib [1] ''Jane Doe'' 100 700 1 ''Helvetica'' 24 ''#FF0080'') =
       (case drawText stub_pdflib [1] 0 ''Jane Doe'' 100 700 Helvetica 24 (1, 0, 128 / 255) of
          Inl e \<Rightarrow> Inl e
        | Inr pdfDoc2 \<Rightarrow> save stub_pdflib pdfDoc2)"
  using hex_colour_channels [where L = stub_pdflib and c = "CHR ''#''"
      and ?h1.0 = "CHR ''F''" and ?h2.0 = "CHR ''F''"
      and ?h3.0 = "CHR ''0''" and ?h4.0 = "CHR ''0''" and ?h5.0 = "CHR ''8''" and ?h6.0 = "CHR ''0''"
      and ?v1.0 = 15 and ?v2.0 = 15 and ?v3.0 = 0 and ?v4.0 = 0 and ?v5.0 = 8 and ?v6.0 = 0
      and pdfBytes = "[1]" and pdfDoc = "[1]" and pageNumber = 1 and fontName = "''Helvetica''"
      and ?pdfDoc1.0 = "[1]" and font = Helvetica and color = "(1, 0, 128 / 255)"
      and signatureText = "''Jane Doe''" and x = 100 and y = 700 and fontSize = 24]
  by (simp add: stub_pdflib_def hex_value_def embed_requested_font_def toLowerCase_def
        lower_char_def lift_def)

text \<open>
  Without the \<open>#\<close> the three pairs are read one character further on: \<open>FF0000\<close> gives
  the channels of \<open>F0\<close>, \<open>00\<close> and \<open>0\<close>, not those of \<open>#FF0000\<close>.
\<close>

theorem missing_hash_counterexample:
  "hexToRgb stub_pdflib ''#FF0000'' = ([], Inr (1, 0, 0))
   \<and> hexToRgb stub_pdflib ''FF0000'' = ([], Inr (240 / 255, 0, 0))
   \<and> hexToRgb stub_pdflib ''FF0000'' \<noteq> hexToRgb stub_pdflib ''#FF0000''"
  by (simp add: hexToRgb_def stub_pdflib_def substring_def parseInt16_def is_space_def is_hex_def
        hex_value_def hex_digits_value_def lift_def)

section \<open>The font\<close>

lemma embed_requested_font_matched:
  assumes "(name, sf) \<in> set [(''helvetica'', Helvetica), (''helvetica-bold'', HelveticaBold),
                             (''times-roman'', TimesRoman), (''courier'', Courier)]"
    and "toLowerCase fontName = name"
  shows "embed_requested_font L pdfDoc fontName =
           (case embedFont L pdfDoc sf of
              Inr r \<Rightarrow> ([], Inr r)
            | Inl e \<Rightarrow> ([ErrorEmbeddingFont fontName e], embedFont L pdfDoc Helvetica))"
  using assms
  by (auto simp: embed_requested_font_def lift_def throw_def split: sum.splits)

lemma embed_requested_font_unmatched:
  assumes "toLowerCase fontName \<notin> set [''helvetica'', ''helvetica-bold'', ''times-roman'', ''courier'']"
  shows "embed_requested_font L pdfDoc fontName =
           (case embedFont L pdfDoc Helvetica of
              Inr r \<Rightarrow> ([WarnFontNotStandard fontName], Inr r)
            | Inl e \<Rightarrow> ([WarnFontNotStandard fontName, ErrorEmbeddingFont fontName e], Inl e))"
  using assms
  by (auto simp: embed_requested_font_def lift_def throw_def split: sum.splits)

lemma embed_requested_font_raises:
  "snd (embed_requested_font L pdfDoc fontName) = Inl err \<longleftrightarrow>
     embedFont L pdfDoc Helvetica = Inl err
     \<and> (toLowerCase fontName = ''helvetica-bold'' \<longrightarrow> (\<exists>e. embedFont L pdfDoc HelveticaBold = Inl e))
     \<and> (toLowerCase fontName = ''times-roman'' \<longrightarrow> (\<exists>e. embedFont L pdfDoc TimesRoman = Inl e))
     \<and> (toLowerCase fontName = ''courier'' \<longrightarrow> (\<exists>e. embedFont L pdfDoc Courier = Inl e))"
  by (cases "embedFont L pdfDoc Helvetica"; cases "embedFont L pdfDoc HelveticaBold";
      cases "embedFont L pdfDoc TimesRoman"; cases "embedFont L pdfDoc Courier")
     (auto simp: embed_requested_font_def try_catch_lift Let_def lift_def)

text \<open>
  Claim C3, as the code has it. A name that is one of the four after lower-casing embeds
  its font; if that embedding throws, the error is printed with \<open>console.error\<close> and
  Helvetica is embedded instead. Any other name prints a warning and embeds Helvetica.
  Font resolution throws exactly when this fallback is taken and embedding Helvetica
  throws: for the name \<open>helvetica\<close>, and for a name that matches none, when Helvetica
  cannot be embedded; for one of the other three names, when neither its font nor
  Helvetica can. The error then reaches the caller of \<open>signPdfWithText\<close>. In every other
  case \<open>signPdfWithText\<close> succeeds whenever the colour, the drawing and the saving do.
\<close>

theorem font_falls_back_to_helvetica:
  "((name, sf) \<in> set [(''helvetica'', Helvetica), (''helvetica-bold'', HelveticaBold),
                      (''times-roman'', TimesRoman), (''courier'', Courier)] \<longrightarrow>
      toLowerCase matchedName = name \<longrightarrow>
      embed_requested_font L pdfDoc matchedName =
        (case embedFont L pdfDoc sf of
           Inr r \<Rightarrow> ([], Inr r)
         | Inl e \<Rightarrow> ([ErrorEmbeddingFont matchedName e], embedFont L pdfDoc Helvetica)))
   \<and> (toLowerCase otherName
        \<notin> set [''helvetica'', ''helvetica-bold'', ''times-roman'', ''courier''] \<longrightarrow>
      embed_requested_font L pdfDoc otherName =
        (case embedFont L pdfDoc Helvetica of
           Inr r \<Rightarrow> ([WarnFontNotStandard otherName], Inr r)
         | Inl e \<Rightarrow> ([WarnFontNotStandard otherName, ErrorEmbeddingFont otherName e], Inl e)))
   \<and> is_warning (WarnFontNotStandard otherName)
   \<and> (snd (embed_requested_font L pdfDoc fontName) = Inl err \<longleftrightarrow>
        embedFont L pdfDoc Helvetica = Inl err
        \<and> (toLowerCase fontName = ''helvetica-bold'' \<longrightarrow>
             (\<exists>e. embedFont L pdfDoc HelveticaBold = Inl e))
        \<and> (toLowerCase fontName = ''times-roman'' \<longrightarrow>
             (\<exists>e. embedFont L pdfDoc TimesRoman = Inl e))
        \<and> (toLowerCase fontName = ''courier'' \<longrightarrow>
             (\<exists>e. embedFont L pdfDoc Courier = Inl e)))
   \<and> (load L pdfBytes = Inr pdfDoc \<longrightarrow>
        1 \<le> pageNumber \<and> pageNumber \<le> int (length (getPages L pdfDoc)) \<longrightarrow>
        snd (embed_requested_font L pdfDoc fontName) = Inl err \<longrightarrow>
        snd (signPdfWithText L pdfBytes signatureText x y pageNumber fontName fontSize colorHex)
          = Inl err)
   \<and> (load L pdfBytes = Inr pdfDoc \<longrightarrow>
        1 \<le> pageNumber \<and> pageNumber \<le> int (length (getPages L pdfDoc)) \<longrightarrow>
        snd (embed_requested_font L pdfDoc fontName) = Inr (pdfDoc1, font) \<longrightarrow>
        snd (hexToRgb L colorHex) = Inr color \<longrightarrow>
        drawText L pdfDoc1 (nat (pageNumber - 1)) signatureText x y font fontSize color
          = Inr pdfDoc2 \<longrightarrow>
        save L pdfDoc2 = Inr signedBytes \<longrightarrow>
        snd (signPdfWithText L pdfBytes signatureText x y pageNumber fontName fontSize colorHex)
          = Inr signedBytes)"
proof (intro conjI impI)
  assume "(name, sf) \<in> set [(''helvetica'', Helvetica), (''helvetica-bold'', HelveticaBold),
                             (''times-roman'', TimesRoman), (''courier'', Courier)]"
    and "toLowerCase matchedName = name"
  then show "embed_requested_font L pdfDoc matchedName =
        (case embedFont L pdfDoc sf of
           Inr r \<Rightarrow> ([], Inr r)
         | Inl e \<Rightarrow> ([ErrorEmbeddingFont matchedName e], embedFont L pdfDoc Helvetica))"
    by (rule embed_requested_font_matched)
next
  assume "toLowerCase otherName \<notin> set [''helvetica'', ''helvetica-bold'', ''times-roman'', ''courier'']"
  then show "embed_requested_font L pdfDoc otherName =
        (case embedFont L pdfDoc Helvetica of
           Inr r \<Rightarrow> ([WarnFontNotStandard otherName], Inr r)
         | Inl e \<Rightarrow> ([WarnFontNotStandard otherName, ErrorEmbeddingFont otherName e], Inl e))"
    by (rule embed_requested_font_unmatched)
next
  show "is_warning (WarnFontNotStandard otherName)" by simp
next
  show "snd (embed_requested_font L pdfDoc fontName) = Inl err \<longleftrightarrow>
        embedFont L pdfDoc Helvetica = Inl err
        \<and> (toLowerCase fontName = ''helvetica-bold'' \<longrightarrow>
             (\<exists>e. embedFont L pdfDoc HelveticaBold = Inl e))
        \<and> (toLowerCase fontName = ''times-roman'' \<longrightarrow>
             (\<exists>e. embedFont L pdfDoc TimesRoman = Inl e))
        \<and> (toLowerCase fontName = ''courier'' \<longrightarrow>
             (\<exists>e. embedFont L pdfDoc Courier = Inl e))"
    by (rule embed_requested_font_raises)
next
  assume "load L pdfBytes = Inr pdfDoc"
    and "1 \<le> pageNumber \<and> pageNumber \<le> int (length (getPages L pdfDoc))"
    and "snd (embed_requested_font L pdfDoc fontName) = Inl err"
  then show "snd (signPdfWithText L pdfBytes signatureText x y pageNumber fontName fontSize colorHex)
          = Inl err"
    by (simp add: signPdfWithText_def Let_def bind_snd)
next
  assume "load L pdfBytes = Inr pdfDoc"
    and "1 \<le> pageNumber \<and> pageNumber \<le> int (length (getPages L pdfDoc))"
    and "snd (embed_requested_font L pdfDoc fontName) = Inr (pdfDoc1, font)"
    and "snd (hexToRgb L colorHex) = Inr color"
    and "drawText L pdfDoc1 (nat (pageNumber - 1)) signatureText x y font fontSize color
          = Inr pdfDoc2"
    and "save L pdfDoc2 = Inr signedBytes"
  then show "snd (signPdfWithText L pdfBytes signatureText x y pageNumber fontName fontSize colorHex)
          = Inr signedBytes"
    by (simp add: signPdfWithText_def Let_def bind_snd lift_def)
qed

text \<open>
  With a library that embeds every font but Helvetica-Bold, the names \<open>Helvetica-Bold\<close>
  and \<open>Comic-Sans-9000\<close> both end with Helvetica, and the text is signed. With a library
  that embeds no font, the name \<open>Helvetica-Bold\<close> makes \<open>signPdfWithText\<close> throw.
\<close>

theorem font_falls_back_to_helvetica_witness:
  "embed_requested_font boldless_pdflib [1] ''Helvetica-Bold'' =
     ([ErrorEmbeddingFont ''Helvetica-Bold'' (Error ''Font embedding failed'')],
      Inr ([1], Helvetica))
   \<and> embed_requested_font boldless_pdflib [1] ''Comic-Sans-9000'' =
     ([WarnFontNotStandard ''Comic-Sans-9000''], Inr ([1], Helvetica))
   \<and> snd (signPdfWithText boldless_pdflib [1] ''Jane Doe'' 100 700 1 ''Helvetica-Bold'' 24
            ''#000000'') = Inr [1, 2]
   \<and> snd (embed_requested_font fontless_pdflib [1] ''Helvetica-Bold'') =
       Inl (Error ''Font embedding failed'')
   \<and> snd (signPdfWithText fontless_pdflib [1] ''Jane Doe'' 100 700 1 ''Helvetica-Bold'' 24
            ''#000000'') = Inl (Error ''Font embedding failed'')"
  using font_falls_back_to_helvetica [where L = boldless_pdflib and pdfDoc = "[1]"
      and name = "''helvetica-bold''" and sf = HelveticaBold
      and matchedName = "''Helvetica-Bold''" and otherName = "''Comic-Sans-9000''"
      and fontName = "''Helvetica-Bold''" and ?pdfDoc1.0 = "[1]" and font = Helvetica
      and pdfBytes = "[1]" and pageNumber = 1 and colorHex = "''#000000''"
      and color = "(0, 0, 0)" and signatureText = "''Jane Doe''" and x = 100 and y = 700
      and fontSize = 24 and ?pdfDoc2.0 = "[1, 2]" and signedBytes = "[1, 2]"]
    font_falls_back_to_helvetica [where L = fontless_pdflib and pdfDoc = "[1]"
      and fontName = "''Helvetica-Bold''" and err = "Error ''Font embedding failed''"
      and pdfBytes = "[1]" and pageNumber = 1 and colorHex = "''#000000''"
      and signatureText = "''Jane Doe''" and x = 100 and y = 700 and fontSize = 24]
  by (simp add: run_defs)

text \<open>
  When Helvetica itself cannot be embedded, the \<open>catch\<close> of line 125 repeats the call
  that failed, and the error reaches the caller of \<open>signPdfWithText\<close>.
\<close>

theorem font_fallback_counterexample:
  "toLowerCase ''Helvetica'' = ''helvetica''
   \<and> embedFont fontless_pdflib [1] Helvetica = Inl (Error ''Font embedding failed'')
   \<and> snd (embed_requested_font fontless_pdflib [1] ''Helvetica'') =
       Inl (Error ''Font embedding failed'')
   \<and> snd (signPdfWithText fontless_pdflib [1] ''Jane Doe'' 100 700 1 ''Helvetica'' 24
            ''#000000'') = Inl (Error ''Font embedding failed'')"
  by (simp add: signPdfWithText_def embed_requested_font_def fontless_pdflib_def stub_pdflib_def
        toLowerCase_def lower_char_def Let_def bind_snd lift_def throw_def)

section \<open>The batch\<close>

lemma dispatch_unknown:
  "sig_type s \<noteq> ''image'' \<Longrightarrow> sig_type s \<noteq> ''text'' \<Longrightarrow>
   dispatch L pdfBytes s = ([WarnUnknownType (sig_type s)], Inr pdfBytes)"
  by (simp add: dispatch_def ret_def)

lemma apply_signature_unknown:
  "sig_type s \<noteq> ''image'' \<Longrightarrow> sig_type s \<noteq> ''text'' \<Longrightarrow>
   apply_signature L i pdfBytes s = ([WarnUnknownType (sig_type s)], Inr pdfBytes)"
  by (simp add: apply_signature_def dispatch_unknown)



lemma apply_loop_append:
  "apply_loop L i pdfBytes (pre @ post) =
     bind (apply_loop L i pdfBytes pre) (\<lambda>b. apply_loop L (i + length pre) b post)"
proof (induction pre arbitrary: i pdfBytes)
  case Nil
  show ?case by simp
next
  case (Cons s pre)
  show ?case by (simp add: Cons.IH bind_assoc)
qed

lemma apply_loop_all_unknown:
  "\<forall>s \<in> set sigs. sig_type s \<noteq> ''image'' \<and> sig_type s \<noteq> ''text'' \<Longrightarrow>
   apply_loop L i pdfBytes sigs = (map (\<lambda>s. WarnUnknownType (sig_type s)) sigs, Inr pdfBytes)"
proof (induction sigs arbitrary: i)
  case Nil
  show ?case by (simp add: ret_def)
next
  case (Cons s sigs)
  then show ?case by (simp add: apply_signature_unknown)
qed






text \<open>
  Claim C7. With an empty array the route answers 400 with the message
  "No signatures provided"; it sends no PDF.
\<close>

theorem empty_list_rejected:
  "applySignatures L pdfBytes [] =
     ([ErrorNoSignaturesInArray], Json 400 [(''msg'', ''No signatures provided'')])"
  by (simp add: applySignatures_def)

theorem empty_list_rejected_witness:
  "applySignatures stub_pdflib [1] [] =
     ([ErrorNoSignaturesInArray], Json 400 [(''msg'', ''No signatures provided'')])"
  using empty_list_rejected [where L = stub_pdflib and pdfBytes = "[1]"]
  by simp

text \<open>
  Claim C8. A request whose type is neither \<open>image\<close> nor \<open>text\<close> prints one warning,
  throws nothing and leaves the bytes as they are; the loop goes on with the request after
  it, at the next index and on the same bytes.
\<close>

theorem unknown_type_is_skipped:
  assumes "sig_type s \<noteq> ''image''" and "sig_type s \<noteq> ''text''"
  shows "apply_signature L i pdfBytes s = ([WarnUnknownType (sig_type s)], Inr pdfBytes)
       \<and> is_warning (WarnUnknownType (sig_type s))
       \<and> (apply_loop L 0 pdfBytes pre = (l, Inr pdfBytes') \<longrightarrow>
            apply_loop L 0 pdfBytes (pre @ s # rest) =
              (l @ WarnUnknownType (sig_type s)
                 # fst (apply_loop L (length pre + 1) pdfBytes' rest),
               snd (apply_loop L (length pre + 1) pdfBytes' rest)))"
  using assms by (simp add: apply_loop_append apply_signature_unknown)

text \<open>A request of type \<open>stamp\<close> between a text and an image.\<close>

theorem unknown_type_is_skipped_witness:
  "apply_signature stub_pdflib 1 [1, 2] stamp_request = ([WarnUnknownType ''stamp''], Inr [1, 2])
   \<and> apply_loop stub_pdflib 0 [1] ([text_request] @ stamp_request # [image_request]) =
       ([WarnUnknownType ''stamp''], Inr [1, 2, 1])"
  using unknown_type_is_skipped [where L = stub_pdflib and s = stamp_request and i = 1
      and pdfBytes = "[1, 2]"]
    unknown_type_is_skipped [where L = stub_pdflib and s = stamp_request
      and pdfBytes = "[1]" and pre = "[text_request]" and l = "[]" and pdfBytes' = "[1, 2]"
      and rest = "[image_request]"]
  by (simp add: run_defs)

text \<open>
  Claim C10. When the array is not empty and no request in it has the type \<open>image\<close> or
  \<open>text\<close>, the route sends the bytes it received, after one warning for each request.
  This holds for every library, also for one that can load no document: no call into the
  library is made.
\<close>

theorem all_unknown_types_return_input:
  assumes "signaturesArray \<noteq> []"
    and "\<forall>s \<in> set signaturesArray. sig_type s \<noteq> ''image'' \<and> sig_type s \<noteq> ''text''"
  shows "applySignatures L pdfBytes signaturesArray =
           (map (\<lambda>s. WarnUnknownType (sig_type s)) signaturesArray,
            SendBuffer [(''Content-Type'', ''application/pdf''),
                        (''Content-Disposition'', ''attachment; filename=signed_document.pdf'')]
              pdfBytes)"
  using assms by (simp add: applySignatures_def apply_loop_all_unknown)

text \<open>Two requests of type \<open>stamp\<close>, on a buffer that is no PDF, with a library that loads none.\<close>

theorem all_unknown_types_return_input_witness:
  "applySignatures loadless_pdflib [7, 7, 7] [stamp_request, stamp_request] =
     ([WarnUnknownType ''stamp'', WarnUnknownType ''stamp''],
      SendBuffer [(''Content-Type'', ''application/pdf''),
                  (''Content-Disposition'', ''attachment; filename=signed_document.pdf'')]
        [7, 7, 7])"
  using all_unknown_types_return_input [where L = loadless_pdflib and pdfBytes = "[7, 7, 7]"
      and signaturesArray = "[stamp_request, stamp_request]"]
  by (simp add: stamp_request_def image_request_def)

end
